theory Spec2Isabelle
  imports Main "HOL-Library.AList" "HOL-Library.Sublist"
begin

section \<open>Strings\<close>

text \<open>
  A JavaScript string is modelled as a \<^typ>\<open>string\<close>: a list of 8-bit code units, read as
  Latin-1. The three string methods the installers use are \<open>trim\<close>, \<open>toLowerCase\<close> and
  \<open>includes\<close>.
\<close>

definition isWhiteSpace :: "char \<Rightarrow> bool" where
  "isWhiteSpace c = (of_char c \<in> set [9, 10, 11, 12, 13, 32, 160 :: nat])"

definition trim :: "string \<Rightarrow> string" where
  "trim s = rev (dropWhile isWhiteSpace (rev (dropWhile isWhiteSpace s)))"

definition lowerChar :: "char \<Rightarrow> char" where
  "lowerChar c =
     (let n = (of_char c :: nat)
      in if (65 \<le> n \<and> n \<le> 90) \<or> (192 \<le> n \<and> n \<le> 222 \<and> n \<noteq> 215)
         then char_of (n + 32) else c)"

definition toLowerCase :: "string \<Rightarrow> string" where
  "toLowerCase s = map lowerChar s"

text \<open>\<open>content.includes(search)\<close>: \<open>search\<close> occurs in \<open>content\<close> as a contiguous run.\<close>

fun str_includes :: "string \<Rightarrow> string \<Rightarrow> bool" where
  "str_includes [] search = (search = [])"
| "str_includes (c # cs) search = (prefix search (c # cs) \<or> str_includes cs search)"

text \<open>The double-quote and newline characters, for building messages and file contents.\<close>

definition dq :: char where
  "dq = CHR 0x22"

definition nl :: char where
  "nl = CHR 0x0A"

fun digit :: "nat \<Rightarrow> char" where
  "digit n = char_of (48 + n)"

fun decimal :: "nat \<Rightarrow> string" where
  "decimal n = (if n < 10 then [digit n] else decimal (n div 10) @ [digit (n mod 10)])"

section \<open>JSON values and objects\<close>

text \<open>
  What \<open>JSON.parse\<close> returns. An object is an association list in insertion order, as
  \<open>Object.entries\<close> and the spread operator enumerate it (the engine's reordering of
  integer-like keys is not modelled; the theorems below speak about lookups). Of a number
  only whether it is zero is ever observed, so numbers are integers here.
\<close>

datatype json =
    JNull
  | JBool bool
  | JNum int
  | JStr string
  | JArr "json list"
  | JObj "(string \<times> json) list"

type_synonym object = "(string \<times> json) list"

text \<open>
  A property read \<open>obj[key]\<close> on a plain object finds the own property, else the member of
  \<open>Object.prototype\<close> of that name (a function or object, hence truthy), else
  \<open>undefined\<close>.
\<close>

datatype jsval = Undefined | Inherited | Own json

definition objectPrototypeNames :: "string list" where
  "objectPrototypeNames =
     [''constructor'', ''hasOwnProperty'', ''isPrototypeOf'', ''propertyIsEnumerable'',
      ''toLocaleString'', ''toString'', ''valueOf'', ''__defineGetter__'',
      ''__defineSetter__'', ''__lookupGetter__'', ''__lookupSetter__'', ''__proto__'']"

definition getProp :: "object \<Rightarrow> string \<Rightarrow> jsval" where
  "getProp obj key =
     (case map_of obj key of
        Some v \<Rightarrow> Own v
      | None \<Rightarrow> if key \<in> set objectPrototypeNames then Inherited else Undefined)"

fun truthyJson :: "json \<Rightarrow> bool" where
  "truthyJson JNull = False"
| "truthyJson (JBool b) = b"
| "truthyJson (JNum n) = (n \<noteq> 0)"
| "truthyJson (JStr s) = (s \<noteq> [])"
| "truthyJson (JArr xs) = True"
| "truthyJson (JObj kvs) = True"

fun truthy :: "jsval \<Rightarrow> bool" where
  "truthy Undefined = False"
| "truthy Inherited = True"
| "truthy (Own v) = truthyJson v"

text \<open>
  An assignment \<open>obj[key] = value\<close> on a plain object overwrites the own property in place
  or appends a new one. (The one name for which this is not so is \<open>__proto__\<close> on an object
  without such an own property, where the assignment reaches the prototype's setter; the
  theorems exclude that name.)
\<close>

definition setProp :: "object \<Rightarrow> string \<Rightarrow> json \<Rightarrow> object" where
  "setProp obj key v = AList.update key v obj"

text \<open>
  The own enumerable properties of a value, as \<open>{...v}\<close> and \<open>Object.entries(v)\<close> list them:
  the entries of an object, the indexed elements of an array, the indexed characters of a
  string, nothing for the other values.
\<close>

definition indexed :: "json list \<Rightarrow> object" where
  "indexed xs = zip (map decimal [0..<length xs]) xs"

fun ownProps :: "json \<Rightarrow> object" where
  "ownProps (JObj kvs) = kvs"
| "ownProps (JArr xs) = indexed xs"
| "ownProps (JStr s) = indexed (map (\<lambda>c. JStr [c]) s)"
| "ownProps _ = []"

fun spreadProps :: "jsval \<Rightarrow> object" where
  "spreadProps (Own v) = ownProps v"
| "spreadProps _ = []"

text \<open>Copying properties one by one into a target object, later ones winning.\<close>

definition assign :: "object \<Rightarrow> object \<Rightarrow> object" where
  "assign target src = fold (\<lambda>(k, v) acc. setProp acc k v) src target"

section \<open>The world: file system, standard input, console\<close>

text \<open>
  What can be thrown. A system error of \<open>fs\<close> is kept as its code (\<open>ENOENT\<close>, \<open>EISDIR\<close>,
  ...), which also stands for its message.
\<close>

datatype error = TypeError string | SyntaxError string | SystemError string

fun errMessage :: "error \<Rightarrow> string" where
  "errMessage (TypeError m) = m"
| "errMessage (SyntaxError m) = m"
| "errMessage (SystemError code) = code"

text \<open>
  A path is its list of components; a file carries its content and whether it is
  executable. The root \<open>[]\<close> is a directory. \<open>stdin\<close> holds the lines the user will still
  type; \<open>out\<close> collects what is printed, each line with the method of \<open>log\<close> that printed it,
  or \<open>Question\<close> for a prompt (colour codes and the glyphs outside ASCII are left out of
  the messages).
\<close>

type_synonym path = "string list"

datatype node = Dir | File string bool

datatype level = Success | Warning | Error | Info | Question

record world =
  files :: "(path \<times> node) list"
  stdin :: "string list"
  out :: "(level \<times> string) list"

text \<open>
  How a call ends: it returns, it throws (a rejected promise for the \<open>async\<close> functions), it
  ends the process with \<open>process.exit(code)\<close>, or it waits for ever on a prompt that
  nobody answers.
\<close>

datatype 'a outcome = Return 'a | Throw error | Exit nat | Blocked

type_synonym 'a prog = "world \<Rightarrow> 'a outcome \<times> world"

definition ret :: "'a \<Rightarrow> 'a prog" where
  "ret x w = (Return x, w)"

definition throw :: "error \<Rightarrow> 'a prog" where
  "throw e w = (Throw e, w)"

definition processExit :: "nat \<Rightarrow> 'a prog" where
  "processExit code w = (Exit code, w)"

definition andThen :: "'a prog \<Rightarrow> ('a \<Rightarrow> 'b prog) \<Rightarrow> 'b prog" where
  "andThen m f w =
     (case m w of
        (Return x, w') \<Rightarrow> f x w'
      | (Throw e, w') \<Rightarrow> (Throw e, w')
      | (Exit code, w') \<Rightarrow> (Exit code, w')
      | (Blocked, w') \<Rightarrow> (Blocked, w'))"

text \<open>\<open>try { m } catch (err) { h err }\<close>: only a throw is caught.\<close>

definition tryCatch :: "'a prog \<Rightarrow> (error \<Rightarrow> 'a prog) \<Rightarrow> 'a prog" where
  "tryCatch m h w =
     (case m w of
        (Throw e, w') \<Rightarrow> h e w'
      | r \<Rightarrow> r)"

subsection \<open>Logging (utils.js, \<open>log\<close>)\<close>

text \<open>
  The \<open>log\<close> object has exactly four methods. Calling any other property of it, as in
  \<open>log.warn(msg)\<close>, calls \<open>undefined\<close> and throws a \<open>TypeError\<close>.
\<close>

definition log :: "(string \<times> level) list" where
  "log = [(''success'', Success), (''warning'', Warning), (''error'', Error), (''info'', Info)]"

definition callLog :: "string \<Rightarrow> string \<Rightarrow> unit prog" where
  "callLog method msg w =
     (case map_of log method of
        None \<Rightarrow> (Throw (TypeError (''log.'' @ method @ '' is not a function'')), w)
      | Some l \<Rightarrow> (Return (), w\<lparr>out := out w @ [(l, msg)]\<rparr>))"

section \<open>Package manifest editor (utils.js)\<close>

text \<open>
  \<open>mergeScripts(pkg, newScripts, overwrite)\<close>. The manifest is mutated in place and
  returned; the model returns the new manifest. The module is strict-mode code, so an
  assignment to a property of a primitive throws; a \<open>pkg\<close> or a \<open>pkg.scripts\<close> that is not
  an object (a primitive, or an array, whose extra properties a JSON value cannot hold) is
  modelled by that \<open>TypeError\<close>.
\<close>

definition notAnObject :: error where
  "notAnObject = TypeError ''not an object''"

fun mergeEntry :: "bool \<Rightarrow> json \<Rightarrow> string \<times> json \<Rightarrow> json prog" where
  "mergeEntry overwrite (JObj scripts) (key, v) =
     (if \<not> truthy (getProp scripts key) \<or> overwrite
      then ret (JObj (setProp scripts key v))
      else andThen (callLog ''warning''
                      (''Script '' @ [dq] @ key @ [dq] @ '' already exists, skipping''))
             (\<lambda>_. ret (JObj scripts)))"
| "mergeEntry overwrite scripts (key, v) = throw notAnObject"

fun forEachEntry :: "bool \<Rightarrow> json \<Rightarrow> object \<Rightarrow> json prog" where
  "forEachEntry overwrite scripts [] = ret scripts"
| "forEachEntry overwrite scripts (e # es) =
     andThen (mergeEntry overwrite scripts e) (\<lambda>scripts'. forEachEntry overwrite scripts' es)"

definition objectEntries :: "json \<Rightarrow> object prog" where
  "objectEntries v =
     (if v = JNull then throw (TypeError ''Cannot convert undefined or null to object'')
      else ret (ownProps v))"

definition scriptsOrEmpty :: "object \<Rightarrow> json" where
  "scriptsOrEmpty pkg =
     (case map_of pkg ''scripts'' of
        None \<Rightarrow> JObj []
      | Some JNull \<Rightarrow> JObj []
      | Some v \<Rightarrow> v)"

fun mergeScripts :: "json \<Rightarrow> json \<Rightarrow> bool \<Rightarrow> json prog" where
  "mergeScripts (JObj pkg) newScripts overwrite =
     (let scripts0 = scriptsOrEmpty pkg;
          pkg1 = setProp pkg ''scripts'' scripts0
      in andThen (objectEntries newScripts) (\<lambda>entries.
         andThen (forEachEntry overwrite scripts0 entries) (\<lambda>scripts.
         ret (JObj (setProp pkg1 ''scripts'' scripts)))))"
| "mergeScripts pkg newScripts overwrite = throw notAnObject"

text \<open>\<open>mergePackageConfig(pkg, configKey, configValue, merge)\<close>.\<close>

fun mergePackageConfig :: "json \<Rightarrow> string \<Rightarrow> json \<Rightarrow> bool \<Rightarrow> json prog" where
  "mergePackageConfig (JObj pkg) configKey configValue merge =
     (if \<not> truthy (getProp pkg configKey) \<or> \<not> merge
      then andThen (ret (JObj (setProp pkg configKey configValue))) (\<lambda>pkg'.
           andThen (callLog ''success'' (''Added '' @ configKey @ '' configuration''))
             (\<lambda>_. ret pkg'))
      else andThen (ret (JObj (setProp pkg configKey
                      (JObj (assign (assign [] (spreadProps (getProp pkg configKey)))
                                    (ownProps configValue))))))
             (\<lambda>pkg'.
           andThen (callLog ''success'' (''Merged '' @ configKey @ '' configuration''))
             (\<lambda>_. ret pkg')))"
| "mergePackageConfig pkg configKey configValue merge = throw notAnObject"

section \<open>File system and prompt primitives\<close>

text \<open>
  Node's \<open>fs\<close> calls on the modelled file system. A call fails as Node does when the path
  is missing, is a directory where a file is needed, or has no parent directory; failures
  of permission or of the disk are not modelled.
\<close>

definition lookupNode :: "path \<Rightarrow> world \<Rightarrow> node option" where
  "lookupNode p w = (if p = [] then Some Dir else map_of (files w) p)"

definition existsSync :: "path \<Rightarrow> world \<Rightarrow> bool" where
  "existsSync p w = (lookupNode p w \<noteq> None)"

definition putNode :: "path \<Rightarrow> node \<Rightarrow> unit prog" where
  "putNode p n w = (Return (), w\<lparr>files := AList.update p n (files w)\<rparr>)"

definition createNode :: "path \<Rightarrow> node \<Rightarrow> unit prog" where
  "createNode p n w =
     (case lookupNode (butlast p) w of
        None \<Rightarrow> throw (SystemError ''ENOENT'') w
      | Some (File c x) \<Rightarrow> throw (SystemError ''ENOTDIR'') w
      | Some Dir \<Rightarrow> putNode p n w)"

definition readFileSync :: "path \<Rightarrow> string prog" where
  "readFileSync p w =
     (case lookupNode p w of
        None \<Rightarrow> throw (SystemError ''ENOENT'') w
      | Some Dir \<Rightarrow> throw (SystemError ''EISDIR'') w
      | Some (File c x) \<Rightarrow> ret c w)"

definition writeFileSync :: "path \<Rightarrow> string \<Rightarrow> unit prog" where
  "writeFileSync p content w =
     (case lookupNode p w of
        None \<Rightarrow> createNode p (File content False) w
      | Some Dir \<Rightarrow> throw (SystemError ''EISDIR'') w
      | Some (File c x) \<Rightarrow> putNode p (File content x) w)"

definition appendFileSync :: "path \<Rightarrow> string \<Rightarrow> unit prog" where
  "appendFileSync p s w =
     (case lookupNode p w of
        None \<Rightarrow> createNode p (File s False) w
      | Some Dir \<Rightarrow> throw (SystemError ''EISDIR'') w
      | Some (File c x) \<Rightarrow> putNode p (File (c @ s) x) w)"

definition copyFileSync :: "path \<Rightarrow> path \<Rightarrow> unit prog" where
  "copyFileSync src dest w =
     (case lookupNode src w of
        None \<Rightarrow> throw (SystemError ''ENOENT'') w
      | Some Dir \<Rightarrow> throw (SystemError ''EISDIR'') w
      | Some (File c x) \<Rightarrow>
          (case lookupNode dest w of
             None \<Rightarrow> createNode dest (File c x) w
           | Some Dir \<Rightarrow> throw (SystemError ''EISDIR'') w
           | Some (File c' x') \<Rightarrow> putNode dest (File c x) w))"

text \<open>\<open>fs.chmodSync(p, '755')\<close>.\<close>

definition chmodSync :: "path \<Rightarrow> unit prog" where
  "chmodSync p w =
     (case lookupNode p w of
        None \<Rightarrow> throw (SystemError ''ENOENT'') w
      | Some Dir \<Rightarrow> ret () w
      | Some (File c x) \<Rightarrow> putNode p (File c True) w)"

text \<open>\<open>fs.mkdirSync(p, { recursive: true })\<close>: every missing ancestor, then \<open>p\<close>.\<close>

fun mkdirs :: "path list \<Rightarrow> unit prog" where
  "mkdirs [] w = ret () w"
| "mkdirs (d # ds) w =
     (case lookupNode d w of
        None \<Rightarrow> andThen (putNode d Dir) (\<lambda>_. mkdirs ds) w
      | Some Dir \<Rightarrow> mkdirs ds w
      | Some (File c x) \<Rightarrow> throw (SystemError (if ds = [] then ''EEXIST'' else ''ENOTDIR'')) w)"

definition mkdirSync :: "path \<Rightarrow> unit prog" where
  "mkdirSync p = mkdirs (prefixes p)"

text \<open>\<open>fs.readdirSync(d)\<close>, in the order of the model's file table.\<close>

definition readdirSync :: "path \<Rightarrow> string list prog" where
  "readdirSync d w =
     (case lookupNode d w of
        None \<Rightarrow> throw (SystemError ''ENOENT'') w
      | Some (File c x) \<Rightarrow> throw (SystemError ''ENOTDIR'') w
      | Some Dir \<Rightarrow>
          ret (map (last \<circ> fst) (filter (\<lambda>(p, n). p \<noteq> [] \<and> butlast p = d) (files w))) w)"

text \<open>\<open>fs.statSync(p).isDirectory()\<close>.\<close>

definition statIsDirectory :: "path \<Rightarrow> bool prog" where
  "statIsDirectory p w =
     (case lookupNode p w of
        None \<Rightarrow> throw (SystemError ''ENOENT'') w
      | Some n \<Rightarrow> ret (n = Dir) w)"

definition basename :: "path \<Rightarrow> string" where
  "basename p = (if p = [] then [] else last p)"

text \<open>
  What the code takes from its platform: the working directory (the orchestrator's
  \<open>userRoot\<close>), the directory the
  installer is bundled in, whether the platform is \<open>win32\<close>, \<open>JSON.parse\<close> (\<open>None\<close> where it
  throws a \<open>SyntaxError\<close>), \<open>JSON.stringify(data, null, 2)\<close>, and \<open>execSync(command, cwd)\<close>,
  which throws when the command fails.
\<close>

record env =
  cwd :: path
  packageRoot :: path
  win32 :: bool
  JSONparse :: "string \<Rightarrow> json option"
  JSONstringify :: "json \<Rightarrow> string"
  execSync :: "string \<Rightarrow> path \<Rightarrow> unit prog"

section \<open>JSON store and file copier (utils.js)\<close>

definition readJSON :: "env \<Rightarrow> path \<Rightarrow> json prog" where
  "readJSON env filePath =
     tryCatch
       (andThen (readFileSync filePath) (\<lambda>text.
          case JSONparse env text of
            None \<Rightarrow> throw (SyntaxError ''Unexpected token'')
          | Some v \<Rightarrow> ret v))
       (\<lambda>err.
          andThen (callLog ''error'' (''Failed to read '' @ basename filePath @ '': '' @ errMessage err))
            (\<lambda>_. processExit 1))"

definition writeJSON :: "env \<Rightarrow> path \<Rightarrow> json \<Rightarrow> unit prog" where
  "writeJSON env filePath data =
     tryCatch
       (andThen (writeFileSync filePath (JSONstringify env data @ [nl])) (\<lambda>_.
          callLog ''success'' (basename filePath @ '' updated'')))
       (\<lambda>err.
          andThen (callLog ''error'' (''Failed to write '' @ basename filePath @ '': '' @ errMessage err))
            (\<lambda>_. processExit 1))"

text \<open>
  \<open>promptUser(question)\<close> prints the question and resolves with the next line typed; with
  no line left it never resolves.
\<close>

definition promptUser :: "string \<Rightarrow> bool prog" where
  "promptUser question w =
     (let w1 = w\<lparr>out := out w @ [(Question, question @ '' (Y/n): '')]\<rparr>
      in case stdin w1 of
           [] \<Rightarrow> (Blocked, w1)
         | answer # rest \<Rightarrow>
             (let normalized = toLowerCase (trim answer)
              in (Return (normalized = ''y'' \<or> normalized = ''yes'' \<or> normalized = []),
                  w1\<lparr>stdin := rest\<rparr>)))"

definition copyFile :: "path \<Rightarrow> path \<Rightarrow> string \<Rightarrow> bool \<Rightarrow> bool prog" where
  "copyFile src dest description allowOverwrite w =
     (let fileName = basename dest;
          doCopy =
            tryCatch
              (andThen (copyFileSync src dest) (\<lambda>_.
               andThen (callLog ''success'' (''Created '' @ fileName)) (\<lambda>_. ret True)))
              (\<lambda>err.
                 andThen (callLog ''error'' (''Failed to copy '' @ fileName @ '': '' @ errMessage err))
                   (\<lambda>_. ret False))
      in if \<not> existsSync src w
         then andThen (callLog ''error'' (''Source '' @ description @ '' not found: '' @ fileName))
                (\<lambda>_. ret False) w
         else if existsSync dest w
         then (if allowOverwrite
               then andThen (promptUser (fileName @ '' already exists. Overwrite?''))
                      (\<lambda>shouldOverwrite.
                         if \<not> shouldOverwrite
                         then andThen (callLog ''info'' (''Skipped '' @ fileName)) (\<lambda>_. ret False)
                         else doCopy) w
               else andThen (callLog ''warning'' (''Skipping '' @ fileName @ '' (already exists)''))
                      (\<lambda>_. ret False) w)
         else doCopy w)"

record results =
  success :: nat
  skipped :: nat
  failed :: nat

fun copyEach :: "path \<Rightarrow> path \<Rightarrow> string list \<Rightarrow> bool \<Rightarrow> results \<Rightarrow> results prog" where
  "copyEach srcDir destDir [] allowOverwrite results = ret results"
| "copyEach srcDir destDir (file # rest) allowOverwrite results =
     (let src = srcDir @ [file];
          dest = destDir @ [file]
      in andThen (copyFile src dest ''config file'' allowOverwrite) (\<lambda>copied w.
           copyEach srcDir destDir rest allowOverwrite
             (if copied then results\<lparr>success := success results + 1\<rparr>
              else if existsSync dest w then results\<lparr>skipped := skipped results + 1\<rparr>
              else results\<lparr>failed := failed results + 1\<rparr>) w))"

definition copyConfigFiles :: "path \<Rightarrow> path \<Rightarrow> string list \<Rightarrow> bool \<Rightarrow> results prog" where
  "copyConfigFiles srcDir destDir fileNames allowOverwrite =
     copyEach srcDir destDir fileNames allowOverwrite \<lparr>success = 0, skipped = 0, failed = 0\<rparr>"

definition validatePackageJson :: "env \<Rightarrow> path \<Rightarrow> json prog" where
  "validatePackageJson env pkgPath w =
     (if \<not> existsSync pkgPath w
      then andThen (callLog ''error'' ''No package.json found! Please run `npm init -y` first.'')
             (\<lambda>_. processExit 1) w
      else readJSON env pkgPath w)"

section \<open>Hook installer (utils-husky.js)\<close>

text \<open>
  The module calls \<open>promptUser\<close> and \<open>log\<close> of utils.js; the calls are modelled as reaching
  the functions defined there.
\<close>

definition isHuskyInstalled :: "path \<Rightarrow> world \<Rightarrow> bool" where
  "isHuskyInstalled userRoot w = existsSync (userRoot @ [''node_modules'', ''husky'']) w"

definition isHuskyInitialized :: "path \<Rightarrow> world \<Rightarrow> bool" where
  "isHuskyInitialized userRoot w = existsSync (userRoot @ [''.husky'', ''_'', ''husky.sh'']) w"

definition isHookInstalled :: "path \<Rightarrow> string \<Rightarrow> world \<Rightarrow> bool" where
  "isHookInstalled userRoot hookName w = existsSync (userRoot @ [''.husky'', hookName]) w"

definition isGitInitialized :: "path \<Rightarrow> world \<Rightarrow> bool" where
  "isGitInitialized userRoot w = existsSync (userRoot @ [''.git'']) w"

definition promptHuskyInstall :: "bool prog" where
  "promptHuskyInstall =
     andThen (callLog ''info'' ''Husky is required to set up Git hooks.'')
       (\<lambda>_. promptUser ([nl] @ ''Would you like to install Husky? (Y/n): ''))"

definition promptHuskyInit :: "bool prog" where
  "promptHuskyInit = promptUser ([nl] @ ''Activate Git hooks? (Y/n): '')"

definition promptHookOverwrite :: "string \<Rightarrow> bool prog" where
  "promptHookOverwrite hookName =
     andThen (callLog ''warn'' ([nl] @ ''The '' @ hookName @ '' hook already exists.''))
       (\<lambda>_. promptUser ([nl] @ ''Do you want to overwrite it? (y/N): ''))"

definition installHusky :: "env \<Rightarrow> path \<Rightarrow> bool prog" where
  "installHusky env userRoot =
     tryCatch
       (andThen (execSync env ''npm install --save-dev husky'' userRoot) (\<lambda>_. ret True))
       (\<lambda>err.
          andThen (callLog ''error'' (''Failed to install Husky: '' @ errMessage err))
            (\<lambda>_. ret False))"

definition initializeHusky :: "env \<Rightarrow> path \<Rightarrow> bool prog" where
  "initializeHusky env userRoot =
     tryCatch
       (andThen (execSync env ''npx husky'' userRoot) (\<lambda>_. ret True))
       (\<lambda>err.
          andThen (callLog ''error'' (''Failed to initialize Husky: '' @ errMessage err))
            (\<lambda>_. ret False))"

definition ensureHuskyReady :: "env \<Rightarrow> path \<Rightarrow> bool \<Rightarrow> bool prog" where
  "ensureHuskyReady env userRoot autoPrompt w =
     (let initialized = (\<lambda>w.
            if \<not> isHuskyInitialized userRoot w
            then (if autoPrompt
                  then andThen promptHuskyInit (\<lambda>shouldInit.
                         if \<not> shouldInit
                         then andThen
                                (callLog ''warn''
                                   ''Husky initialization skipped. Git hooks will not work.'')
                                (\<lambda>_. ret False)
                         else andThen (initializeHusky env userRoot) (\<lambda>ok.
                                if \<not> ok then ret False else ret True)) w
                  else andThen (callLog ''error'' ''Husky is not initialized.'')
                         (\<lambda>_. ret False) w)
            else ret True w);
          installed = (\<lambda>w.
            if \<not> isHuskyInstalled userRoot w
            then (if autoPrompt
                  then andThen promptHuskyInstall (\<lambda>shouldInstall.
                         if \<not> shouldInstall
                         then andThen
                                (callLog ''warn''
                                   ''Husky installation skipped. Git hooks will not work.'')
                                (\<lambda>_. ret False)
                         else andThen (installHusky env userRoot) (\<lambda>ok.
                                if \<not> ok then ret False else initialized)) w
                  else andThen (callLog ''error'' ''Husky is not installed.'')
                         (\<lambda>_. ret False) w)
            else initialized w)
      in if \<not> isGitInitialized userRoot w
         then andThen
                (callLog ''error''
                   (''Git repository not initialized. Run '' @ [dq] @ ''git init'' @ [dq] @ '' first.''))
                (\<lambda>_. ret False) w
         else installed w)"

text \<open>The content \<open>installHook\<close> writes: the two bootstrap lines, an empty line, the command.\<close>

definition hookContent :: "string \<Rightarrow> string" where
  "hookContent hookCommand =
     ''#!/usr/bin/env sh'' @ [nl] @
     ''. '' @ [dq] @ ''$(dirname -- '' @ [dq] @ ''$0'' @ [dq] @ '')/_/husky.sh'' @ [dq] @ [nl] @
     [nl] @
     hookCommand @ [nl]"

definition installHook :: "env \<Rightarrow> path \<Rightarrow> string \<Rightarrow> string \<Rightarrow> bool \<Rightarrow> bool prog" where
  "installHook env userRoot hookName hookCommand overwrite w =
     (let hookPath = userRoot @ [''.husky'', hookName];
          writeHook =
            tryCatch
              (andThen (writeFileSync hookPath (hookContent hookCommand)) (\<lambda>_.
               andThen (if \<not> win32 env then chmodSync hookPath else ret ()) (\<lambda>_.
               andThen (callLog ''success'' (hookName @ '' hook installed successfully!''))
                 (\<lambda>_. ret True))))
              (\<lambda>err.
                 andThen
                   (callLog ''error''
                      (''Failed to install '' @ hookName @ '' hook: '' @ errMessage err))
                   (\<lambda>_. ret False))
      in if isHookInstalled userRoot hookName w
         then andThen (readFileSync hookPath) (\<lambda>existingContent.
                if str_includes existingContent (trim hookCommand)
                then andThen
                       (callLog ''info'' (hookName @ '' hook already configured with this command.''))
                       (\<lambda>_. ret True)
                else if \<not> overwrite
                then andThen (promptHookOverwrite hookName) (\<lambda>shouldOverwrite.
                       if \<not> shouldOverwrite
                       then andThen (callLog ''info'' (hookName @ '' hook installation skipped.''))
                              (\<lambda>_. ret False)
                       else writeHook)
                else writeHook) w
         else writeHook w)"

definition addToHook :: "path \<Rightarrow> string \<Rightarrow> string \<Rightarrow> bool prog" where
  "addToHook userRoot hookName hookCommand w =
     (let hookPath = userRoot @ [''.husky'', hookName]
      in if \<not> isHookInstalled userRoot hookName w
         then andThen
                (callLog ''error'' (hookName @ '' hook does not exist. Use installHook instead.''))
                (\<lambda>_. ret False) w
         else tryCatch
                (andThen (readFileSync hookPath) (\<lambda>existingContent.
                   if str_includes existingContent (trim hookCommand)
                   then andThen (callLog ''info'' (''Command already exists in '' @ hookName @ '' hook.''))
                          (\<lambda>_. ret True)
                   else andThen (appendFileSync hookPath ([nl] @ hookCommand @ [nl])) (\<lambda>_.
                        andThen (callLog ''success'' (''Command added to '' @ hookName @ '' hook.''))
                          (\<lambda>_. ret True))))
                (\<lambda>err.
                   andThen
                     (callLog ''error''
                        (''Failed to add command to '' @ hookName @ '' hook: '' @ errMessage err))
                     (\<lambda>_. ret False)) w)"

section \<open>The lint and format orchestrator (pretty-please, bin/setup.js)\<close>

definition configsDir :: "env \<Rightarrow> path" where
  "configsDir env = packageRoot env @ [''configs'']"

definition huskyDir :: "env \<Rightarrow> path" where
  "huskyDir env = packageRoot env @ [''hooks'']"

definition CONFIGS :: "string list" where
  "CONFIGS = [''eslint.config.mjs'', ''.prettierrc'']"

text \<open>
  A property read on a parsed JSON value. It is used with the names \<open>scripts\<close> and
  \<open>lint-staged\<close> only, which no primitive and no array has; reading from \<open>null\<close> throws.
\<close>

fun readProp :: "json \<Rightarrow> string \<Rightarrow> jsval prog" where
  "readProp JNull key = throw (TypeError ''Cannot read properties of null'')"
| "readProp (JObj obj) key = ret (getProp obj key)"
| "readProp v key = ret Undefined"

text \<open>\<open>typeof v === 'object'\<close>, for the value of an own property or \<open>undefined\<close>.\<close>

fun typeofObject :: "jsval \<Rightarrow> bool" where
  "typeofObject (Own JNull) = True"
| "typeofObject (Own (JArr xs)) = True"
| "typeofObject (Own (JObj kvs)) = True"
| "typeofObject v = False"

fun valueOf :: "jsval \<Rightarrow> json" where
  "valueOf (Own v) = v"
| "valueOf v = JNull"

text \<open>
  The steps mutate the manifest they are given; the model returns it. When
  \<open>mergeScripts\<close> throws in a step, it has not changed the manifest yet, so the handler goes
  on with the manifest as it was.
\<close>

definition setupScriptsStep :: "env \<Rightarrow> json \<Rightarrow> json prog" where
  "setupScriptsStep env pkg w =
     (let scriptsPath = configsDir env @ [''scripts.json'']
      in if \<not> existsSync scriptsPath w
         then andThen (callLog ''error'' ''scripts.json not found in configs directory'')
                (\<lambda>_. ret pkg) w
         else tryCatch
                (andThen (readJSON env scriptsPath) (\<lambda>scriptsConfig.
                 andThen (readProp scriptsConfig ''scripts'') (\<lambda>scripts.
                   if \<not> truthy scripts \<or> \<not> typeofObject scripts
                   then andThen
                          (callLog ''error''
                             ''Invalid scripts.json format: missing 'scripts' object'')
                          (\<lambda>_. ret pkg)
                   else andThen (mergeScripts pkg (valueOf scripts) False) (\<lambda>pkg1.
                        andThen (readProp scriptsConfig ''lint-staged'') (\<lambda>lintStaged.
                          if truthy lintStaged
                          then mergePackageConfig pkg1 ''lint-staged'' (valueOf lintStaged) True
                          else ret pkg1)))))
                (\<lambda>err.
                   andThen (callLog ''error'' (''Failed to process scripts.json: '' @ errMessage err))
                     (\<lambda>_. ret pkg)) w)"

fun copyHooks :: "env \<Rightarrow> path \<Rightarrow> string list \<Rightarrow> unit prog" where
  "copyHooks env userHuskyDir [] = ret ()"
| "copyHooks env userHuskyDir (hookFile # rest) =
     (let src = huskyDir env @ [hookFile];
          dest = userHuskyDir @ [hookFile]
      in andThen (statIsDirectory src) (\<lambda>isDirectory.
           if isDirectory then copyHooks env userHuskyDir rest
           else andThen (copyFile src dest ''git hook'' True) (\<lambda>copied.
                andThen (if copied \<and> \<not> win32 env then chmodSync dest else ret ()) (\<lambda>_.
                copyHooks env userHuskyDir rest))))"

definition setupHuskyStep :: "env \<Rightarrow> json \<Rightarrow> json prog" where
  "setupHuskyStep env pkg =
     tryCatch
       (let userHuskyDir = cwd env @ [''.husky'']
        in andThen (mkdirSync userHuskyDir) (\<lambda>_.
           andThen (readdirSync (huskyDir env)) (\<lambda>hookFiles.
           andThen (copyHooks env userHuskyDir hookFiles) (\<lambda>_.
           mergeScripts pkg (JObj [(''prepare'', JStr ''husky'')]) False))))
       (\<lambda>err.
          andThen (callLog ''error'' (''Husky setup failed: '' @ errMessage err))
            (\<lambda>_. ret pkg))"

definition main :: "env \<Rightarrow> unit prog" where
  "main env =
     andThen (callLog ''info'' (''Pretty Please  Setting up...'' @ [nl])) (\<lambda>_.
     let pkgPath = cwd env @ [''package.json'']
     in andThen (validatePackageJson env pkgPath) (\<lambda>pkg.
        andThen (callLog ''info'' ''[1/4]  Preparing configuration files...'') (\<lambda>_.
        andThen (copyConfigFiles (configsDir env) (cwd env) CONFIGS True) (\<lambda>_.
        andThen (callLog ''info'' ([nl] @ ''[2/4]  Configuring package scripts...'')) (\<lambda>_.
        andThen (setupScriptsStep env pkg) (\<lambda>pkg2.
        andThen (callLog ''info'' ([nl] @ ''[3/4]  Installing Git hooks...'')) (\<lambda>_.
        andThen (setupHuskyStep env pkg2) (\<lambda>pkg3.
        andThen (callLog ''info'' ([nl] @ ''[4/4]  Finalizing setup...'')) (\<lambda>_.
        andThen (writeJSON env pkgPath pkg3) (\<lambda>_.
        callLog ''info'' ([nl] @ ''Setup success! Happy coding!'')))))))))))"

text \<open>
  The script's last statement, \<open>main().catch(...)\<close>: a rejection is logged and ends the
  process with code 1; when \<open>main\<close> completes, the process ends with code 0.
\<close>

definition run :: "env \<Rightarrow> unit prog" where
  "run env =
     andThen
       (tryCatch (main env)
          (\<lambda>err.
             andThen (callLog ''error'' (''Setup failed: '' @ errMessage err))
               (\<lambda>_. processExit 1)))
       (\<lambda>_. processExit 0)"

section \<open>The commit convention orchestrator (commit-ment, bin/setup.js)\<close>

text \<open>
  The second installer has the same \<open>setupHuskyStep\<close>, its own list of config files, and
  a \<open>setupScriptsStep\<close> without a \<open>try\<close>: what \<open>mergeScripts\<close> or \<open>mergePackageConfig\<close>
  throws there reaches the handler of the last statement.
\<close>

definition CONFIGS_commit_ment :: "string list" where
  "CONFIGS_commit_ment = [''commitlint.config.mjs'']"

definition setupScriptsStep_commit_ment :: "json \<Rightarrow> json prog" where
  "setupScriptsStep_commit_ment pkg =
     (let scripts = JObj [(''commit'', JStr ''cz'')]
      in andThen (mergeScripts pkg scripts False) (\<lambda>pkg1.
         mergePackageConfig pkg1 ''config''
           (JObj [(''commitizen'', JObj [(''path'', JStr ''cz-conventional-changelog'')])])
           True))"

definition main_commit_ment :: "env \<Rightarrow> unit prog" where
  "main_commit_ment env =
     andThen (callLog ''info'' (''Commit-ment  Setting up...'' @ [nl])) (\<lambda>_.
     let pkgPath = cwd env @ [''package.json'']
     in andThen (validatePackageJson env pkgPath) (\<lambda>pkg.
        andThen (callLog ''info'' ''[1/3]  Preparing commitlint configuration...'') (\<lambda>_.
        andThen (copyConfigFiles (configsDir env) (cwd env) CONFIGS_commit_ment True) (\<lambda>_.
        andThen (callLog ''info'' ([nl] @ ''[2/3]  Configuring commit scripts...'')) (\<lambda>_.
        andThen (setupScriptsStep_commit_ment pkg) (\<lambda>pkg2.
        andThen (callLog ''info'' ([nl] @ ''[3/3]  Installing Git hooks...'')) (\<lambda>_.
        andThen (setupHuskyStep env pkg2) (\<lambda>pkg3.
        andThen (callLog ''info'' ([nl] @ ''[4/4]  Finalizing setup...'')) (\<lambda>_.
        andThen (writeJSON env pkgPath pkg3) (\<lambda>_.
        callLog ''info''
          ([nl] @ ''Setup success! Use '' @ [dq] @ ''npm run commit'' @ [dq]
           @ '' for guided commits.'')))))))))))"

definition run_commit_ment :: "env \<Rightarrow> unit prog" where
  "run_commit_ment env =
     andThen
       (tryCatch (main_commit_ment env)
          (\<lambda>err.
             andThen (callLog ''error'' (''Setup failed: '' @ errMessage err))
               (\<lambda>_. processExit 1)))
       (\<lambda>_. processExit 0)"

section \<open>Concrete inputs\<close>

text \<open>
  An environment and some small worlds on which the theorems below are run. \<open>env0\<close> parses
  exactly the text \<open>{}\<close>, to the empty object, as \<open>JSON.parse\<close> does.
\<close>

definition env0 :: env where
  "env0 = \<lparr>cwd = [''proj''], packageRoot = [''pkg''], win32 = False,
           JSONparse = (\<lambda>s. if s = ''{}'' then Some (JObj []) else None),
           JSONstringify = (\<lambda>v. ''{}''), execSync = (\<lambda>cmd dir. ret ())\<rparr>"

definition emptyProject :: world where
  "emptyProject = \<lparr>files = [([''proj''], Dir)], stdin = [], out = []\<rparr>"

definition hookWorld :: "string \<Rightarrow> world" where
  "hookWorld content =
     \<lparr>files = [([''proj''], Dir), ([''proj'', ''.husky''], Dir),
               ([''proj'', ''.husky'', ''pre-commit''], File content False)],
      stdin = [''n''], out = []\<rparr>"

definition huskyProject :: world where
  "huskyProject =
     \<lparr>files = [([''proj''], Dir), ([''proj'', ''.husky''], Dir)], stdin = [], out = []\<rparr>"


definition manifestProject :: world where
  "manifestProject =
     \<lparr>files = [([''proj''], Dir), ([''proj'', ''package.json''], File ''{}'' False)],
      stdin = [], out = []\<rparr>"


definition scriptedManifest :: object where
  "scriptedManifest =
     [(''name'', JStr ''x''),
      (''scripts'', JObj [(''a'', JStr ''y''), (''test'', JStr ''jest'')])]"

section \<open>Auxiliary facts\<close>

lemmas prog_defs = ret_def throw_def processExit_def andThen_def tryCatch_def callLog_def log_def

lemma str_includes_sublist: "str_includes s t = sublist t s"
  by (induction s) (simp_all add: sublist_Cons_right)

lemma str_includes_iff: "str_includes s t \<longleftrightarrow> (\<exists>pre post. s = pre @ t @ post)"
  by (simp add: str_includes_sublist sublist_def)

lemma trim_sublist: "sublist (trim s) s"
proof -
  have "suffix (dropWhile isWhiteSpace s) s"
    by (rule suffix_dropWhile)
  then have outer: "sublist (dropWhile isWhiteSpace s) s"
    by (rule suffix_imp_sublist)
  have "suffix (dropWhile isWhiteSpace (rev (dropWhile isWhiteSpace s)))
          (rev (dropWhile isWhiteSpace s))"
    by (rule suffix_dropWhile)
  then have "prefix (trim s) (dropWhile isWhiteSpace s)"
    by (simp add: trim_def suffix_to_prefix)
  then have "sublist (trim s) (dropWhile isWhiteSpace s)"
    by (rule prefix_imp_sublist)
  with outer show ?thesis
    by (rule sublist_order.order.trans[rotated])
qed

lemma includes_trim: "str_includes c cmd \<Longrightarrow> str_includes c (trim cmd)"
  unfolding str_includes_sublist using trim_sublist sublist_order.order.trans by blast

lemma hookContent_includes: "str_includes (hookContent cmd) (trim cmd)"
proof -
  have "sublist cmd (hookContent cmd)"
    unfolding hookContent_def sublist_def by (metis append.assoc)
  with trim_sublist [of cmd] show ?thesis
    unfolding str_includes_sublist by (rule sublist_order.order.trans)
qed

lemma lookupNode_out [simp]: "lookupNode p (w\<lparr>out := l\<rparr>) = lookupNode p w"
  by (simp add: lookupNode_def)

lemma installHook_configured:
  assumes "lookupNode (userRoot @ [''.husky'', hookName]) w = Some (File content x)"
    and "str_includes content (trim hookCommand)"
  shows "installHook env userRoot hookName hookCommand overwrite w =
           (Return True,
            w\<lparr>out := out w @ [(Info, hookName @ '' hook already configured with this command.'')]\<rparr>)"
  using assms
  by (simp add: installHook_def isHookInstalled_def existsSync_def readFileSync_def Let_def prog_defs)

lemma addToHook_configured:
  assumes "lookupNode (userRoot @ [''.husky'', hookName]) w = Some (File content x)"
    and "str_includes content (trim hookCommand)"
  shows "addToHook userRoot hookName hookCommand w =
           (Return True,
            w\<lparr>out := out w @ [(Info, ''Command already exists in '' @ hookName @ '' hook.'')]\<rparr>)"
  using assms
  by (simp add: addToHook_def isHookInstalled_def existsSync_def readFileSync_def Let_def prog_defs)

lemma addToHook_missing:
  assumes "lookupNode (userRoot @ [''.husky'', hookName]) w = None"
  shows "addToHook userRoot hookName hookCommand w =
           (Return False,
            w\<lparr>out := out w @ [(Error, hookName @ '' hook does not exist. Use installHook instead.'')]\<rparr>)"
  using assms by (simp add: addToHook_def isHookInstalled_def existsSync_def Let_def prog_defs)

lemma addToHook_appends:
  assumes "lookupNode (userRoot @ [''.husky'', hookName]) w = Some (File content x)"
    and "\<not> str_includes content (trim hookCommand)"
  shows "addToHook userRoot hookName hookCommand w =
           (Return True,
            w\<lparr>files := AList.update (userRoot @ [''.husky'', hookName])
                         (File (content @ [nl] @ hookCommand @ [nl]) x) (files w),
              out := out w @ [(Success, ''Command added to '' @ hookName @ '' hook.'')]\<rparr>)"
  using assms
  by (simp add: addToHook_def isHookInstalled_def existsSync_def readFileSync_def appendFileSync_def
      putNode_def Let_def prog_defs)

text \<open>After a successful \<open>installHook\<close> the hook file exists and contains the trimmed command.\<close>

lemma installHook_success_configured:
  assumes "installHook env userRoot hookName hookCommand overwrite w = (Return True, w1)"
  shows "\<exists>content x. lookupNode (userRoot @ [''.husky'', hookName]) w1 = Some (File content x)
           \<and> str_includes content (trim hookCommand)"
  using assms hookContent_includes [of hookCommand]
  apply (simp add: installHook_def isHookInstalled_def existsSync_def readFileSync_def writeFileSync_def
      createNode_def chmodSync_def putNode_def promptHookOverwrite_def Let_def prog_defs
      split: if_splits option.splits node.splits)
  apply (auto simp: lookupNode_def update_conv' split: if_splits option.splits node.splits)
  done

section \<open>The orchestrators without a manifest\<close>

lemma validatePackageJson_absent:
  assumes "\<not> existsSync pkgPath w"
  shows "validatePackageJson env pkgPath w =
           (Exit 1,
            w\<lparr>out := out w @
               [(Error, ''No package.json found! Please run `npm init -y` first.'')]\<rparr>)"
  using assms by (simp add: validatePackageJson_def prog_defs)

text \<open>
  Claim C3. If \<open>package.json\<close> is absent from the project root, running an orchestrator
  (either of the two) ends the process with exit code 1 and leaves every file as it was:
  the check of the manifest comes before any config file is copied, any script merged or
  any hook written. The only effect is two printed lines.
\<close>

theorem run_without_manifest:
  assumes "\<not> existsSync (cwd env @ [''package.json'']) w"
  shows "run env w =
           (Exit 1,
            w\<lparr>out := out w @
               [(Info, ''Pretty Please  Setting up...'' @ [nl]),
                (Error, ''No package.json found! Please run `npm init -y` first.'')]\<rparr>)
       \<and> files (snd (run env w)) = files w
       \<and> run_commit_ment env w =
           (Exit 1,
            w\<lparr>out := out w @
               [(Info, ''Commit-ment  Setting up...'' @ [nl]),
                (Error, ''No package.json found! Please run `npm init -y` first.'')]\<rparr>)
       \<and> files (snd (run_commit_ment env w)) = files w"
proof -
  have absent: "\<not> existsSync (cwd env @ [''package.json'']) (w\<lparr>out := l\<rparr>)" for l
    using assms by (simp add: existsSync_def)
  have first: "run env w =
           (Exit 1,
            w\<lparr>out := out w @
               [(Info, ''Pretty Please  Setting up...'' @ [nl]),
                (Error, ''No package.json found! Please run `npm init -y` first.'')]\<rparr>)"
    by (simp add: run_def main_def validatePackageJson_absent [OF absent] Let_def prog_defs)
  have second: "run_commit_ment env w =
           (Exit 1,
            w\<lparr>out := out w @
               [(Info, ''Commit-ment  Setting up...'' @ [nl]),
                (Error, ''No package.json found! Please run `npm init -y` first.'')]\<rparr>)"
    by (simp add: run_commit_ment_def main_commit_ment_def validatePackageJson_absent [OF absent]
        Let_def prog_defs)
  from first second show ?thesis by simp
qed

theorem run_without_manifest_witness:
  "\<not> existsSync (cwd env0 @ [''package.json'']) emptyProject
   \<and> fst (run env0 emptyProject) = Exit 1
   \<and> files (snd (run env0 emptyProject)) = [([''proj''], Dir)]
   \<and> fst (run_commit_ment env0 emptyProject) = Exit 1
   \<and> files (snd (run_commit_ment env0 emptyProject)) = [([''proj''], Dir)]"
proof -
  have h: "\<not> existsSync (cwd env0 @ [''package.json'']) emptyProject"
    by (simp add: existsSync_def lookupNode_def env0_def emptyProject_def)
  show ?thesis
    using h run_without_manifest [OF h] by (simp add: emptyProject_def)
qed

section \<open>The hook installer\<close>

text \<open>
  Claim C4, as the code has it. In a project root with no \<open>.git\<close> directory,
  \<open>ensureHuskyReady\<close> logs the failure and returns \<open>false\<close>, whatever \<open>autoPrompt\<close> is: it
  asks nothing, installs nothing and changes no file. It does not end the process.
\<close>

theorem ensureHuskyReady_without_git:
  assumes "\<not> isGitInitialized userRoot w"
  shows "ensureHuskyReady env userRoot autoPrompt w =
           (Return False,
            w\<lparr>out := out w @
               [(Error, ''Git repository not initialized. Run '' @ [dq] @ ''git init'' @ [dq]
                        @ '' first.'')]\<rparr>)"
  using assms by (simp add: ensureHuskyReady_def Let_def prog_defs)

theorem ensureHuskyReady_without_git_witness:
  "\<not> isGitInitialized [''proj''] huskyProject
   \<and> fst (ensureHuskyReady env0 [''proj''] False huskyProject) = Return False
   \<and> files (snd (ensureHuskyReady env0 [''proj''] False huskyProject)) = files huskyProject"
proof -
  have h: "\<not> isGitInitialized [''proj''] huskyProject"
    by (simp add: isGitInitialized_def existsSync_def lookupNode_def huskyProject_def)
  show ?thesis
    using h ensureHuskyReady_without_git [OF h, of env0 False] by simp
qed

text \<open>
  Claim C4 as stated fails: in the project \<open>emptyProject\<close>, which has no \<open>.git\<close>, the call
  returns \<open>false\<close> to its caller instead of ending the process.
\<close>

theorem ensureHuskyReady_returns_counterexample:
  "ensureHuskyReady env0 [''proj''] True emptyProject =
     (Return False,
      \<lparr>files = [([''proj''], Dir)], stdin = [],
       out = [(Error, ''Git repository not initialized. Run '' @ [dq] @ ''git init'' @ [dq]
                      @ '' first.'')]\<rparr>)"
  by (simp add: ensureHuskyReady_def isGitInitialized_def existsSync_def lookupNode_def
      emptyProject_def Let_def prog_defs)

text \<open>
  Claim C5, as the code has it. Whenever a call of \<open>installHook\<close> reports success, a second
  call with the same arguments reports success too and changes nothing but the console: it
  finds the command in the hook file and prints that the hook is already configured.
\<close>

theorem installHook_idempotent:
  assumes "installHook env userRoot hookName hookCommand overwrite w = (Return True, w1)"
  shows "installHook env userRoot hookName hookCommand overwrite w1 =
           (Return True,
            w1\<lparr>out := out w1 @ [(Info, hookName @ '' hook already configured with this command.'')]\<rparr>)"
proof -
  obtain content x where
    "lookupNode (userRoot @ [''.husky'', hookName]) w1 = Some (File content x)"
    "str_includes content (trim hookCommand)"
    using installHook_success_configured [OF assms] by blast
  then show ?thesis by (rule installHook_configured)
qed

theorem installHook_idempotent_witness:
  "installHook env0 [''proj''] ''pre-commit'' ''npx lint-staged'' False huskyProject =
     (Return True,
      \<lparr>files = [([''proj''], Dir), ([''proj'', ''.husky''], Dir),
                ([''proj'', ''.husky'', ''pre-commit''], File (hookContent ''npx lint-staged'') True)],
       stdin = [], out = [(Success, ''pre-commit hook installed successfully!'')]\<rparr>)
   \<and> installHook env0 [''proj''] ''pre-commit'' ''npx lint-staged'' False
       \<lparr>files = [([''proj''], Dir), ([''proj'', ''.husky''], Dir),
                 ([''proj'', ''.husky'', ''pre-commit''], File (hookContent ''npx lint-staged'') True)],
        stdin = [], out = [(Success, ''pre-commit hook installed successfully!'')]\<rparr> =
     (Return True,
      \<lparr>files = [([''proj''], Dir), ([''proj'', ''.husky''], Dir),
                ([''proj'', ''.husky'', ''pre-commit''], File (hookContent ''npx lint-staged'') True)],
       stdin = [],
       out = [(Success, ''pre-commit hook installed successfully!''),
              (Info, ''pre-commit hook already configured with this command.'')]\<rparr>)"
proof -
  have h: "installHook env0 [''proj''] ''pre-commit'' ''npx lint-staged'' False huskyProject =
     (Return True,
      \<lparr>files = [([''proj''], Dir), ([''proj'', ''.husky''], Dir),
                ([''proj'', ''.husky'', ''pre-commit''], File (hookContent ''npx lint-staged'') True)],
       stdin = [], out = [(Success, ''pre-commit hook installed successfully!'')]\<rparr>)"
    by (simp add: installHook_def isHookInstalled_def existsSync_def lookupNode_def writeFileSync_def
        createNode_def chmodSync_def putNode_def env0_def huskyProject_def Let_def prog_defs)
  show ?thesis
    using h installHook_idempotent [OF h] by simp
qed

text \<open>
  Claim C5 as stated fails: in a project without a \<open>.husky\<close> directory the hook file cannot
  be written, the first call reports failure, and so does the second.
\<close>

theorem installHook_twice_failing_counterexample:
  "installHook env0 [''proj''] ''pre-commit'' ''npx lint-staged'' False emptyProject =
     (Return False,
      \<lparr>files = [([''proj''], Dir)], stdin = [],
       out = [(Error, ''Failed to install pre-commit hook: ENOENT'')]\<rparr>)
   \<and> installHook env0 [''proj''] ''pre-commit'' ''npx lint-staged'' False
       \<lparr>files = [([''proj''], Dir)], stdin = [],
        out = [(Error, ''Failed to install pre-commit hook: ENOENT'')]\<rparr> =
     (Return False,
      \<lparr>files = [([''proj''], Dir)], stdin = [],
       out = [(Error, ''Failed to install pre-commit hook: ENOENT''),
              (Error, ''Failed to install pre-commit hook: ENOENT'')]\<rparr>)"
  by (simp add: installHook_def isHookInstalled_def existsSync_def lookupNode_def writeFileSync_def
      createNode_def env0_def emptyProject_def Let_def prog_defs)

text \<open>
  Claim C7 fails on the code. The hook file exists without the command, \<open>overwrite\<close> is
  false and the user would answer \<open>n\<close>: \<open>promptHookOverwrite\<close> calls \<open>log.warn\<close>, which
  \<open>log\<close> does not have (its method is \<open>warning\<close>), so \<open>installHook\<close> throws a \<open>TypeError\<close>
  before it asks anything. The hook file is unchanged, but no result is returned.
\<close>

theorem installHook_refusal_throws:
  "installHook env0 [''proj''] ''pre-commit'' ''npx lint-staged'' False (hookWorld ''echo hi'') =
     (Throw (TypeError ''log.warn is not a function''), hookWorld ''echo hi'')"
  by (simp add: installHook_def isHookInstalled_def existsSync_def lookupNode_def readFileSync_def
      promptHookOverwrite_def trim_def isWhiteSpace_def hookWorld_def Let_def prog_defs)

text \<open>
  Claim C8, as the code has it. \<open>addToHook\<close> on a hook file that contains the exact command
  text, or just the trimmed command text, leaves the file as it is and reports success; if
  the hook file does not exist it reports failure, telling the caller to use \<open>installHook\<close>,
  and creates nothing; if the file exists and does not contain the trimmed command text, it
  appends a newline, the command and another newline.
\<close>

theorem addToHook_behaviour:
  "(lookupNode (userRoot @ [''.husky'', hookName]) w = Some (File content x)
      \<and> content = pre @ hookCommand @ post \<longrightarrow>
    addToHook userRoot hookName hookCommand w =
      (Return True,
       w\<lparr>out := out w @ [(Info, ''Command already exists in '' @ hookName @ '' hook.'')]\<rparr>))
 \<and> (lookupNode (userRoot @ [''.husky'', hookName]) w = Some (File content x)
      \<and> str_includes content (trim hookCommand) \<longrightarrow>
    addToHook userRoot hookName hookCommand w =
      (Return True,
       w\<lparr>out := out w @ [(Info, ''Command already exists in '' @ hookName @ '' hook.'')]\<rparr>))
 \<and> (lookupNode (userRoot @ [''.husky'', hookName]) w = None \<longrightarrow>
    addToHook userRoot hookName hookCommand w =
      (Return False,
       w\<lparr>out := out w @ [(Error, hookName @ '' hook does not exist. Use installHook instead.'')]\<rparr>))
 \<and> (lookupNode (userRoot @ [''.husky'', hookName]) w = Some (File content x)
      \<and> \<not> str_includes content (trim hookCommand) \<longrightarrow>
    addToHook userRoot hookName hookCommand w =
      (Return True,
       w\<lparr>files := AList.update (userRoot @ [''.husky'', hookName])
                    (File (content @ [nl] @ hookCommand @ [nl]) x) (files w),
         out := out w @ [(Success, ''Command added to '' @ hookName @ '' hook.'')]\<rparr>))"
proof -
  have "str_includes content (trim hookCommand)" if "content = pre @ hookCommand @ post"
    using that includes_trim [of content hookCommand] by (auto simp: str_includes_iff)
  then show ?thesis
    using addToHook_configured [of userRoot hookName w content x hookCommand]
      addToHook_missing [of userRoot hookName w hookCommand]
      addToHook_appends [of userRoot hookName w content x hookCommand]
    by blast
qed

theorem addToHook_behaviour_witness:
  "addToHook [''proj''] ''pre-commit'' ''echo hi'' (hookWorld ''echo hi'') =
     (Return True,
      (hookWorld ''echo hi'')\<lparr>out := [(Info, ''Command already exists in pre-commit hook.'')]\<rparr>)
   \<and> addToHook [''proj''] ''commit-msg'' ''echo hi'' (hookWorld ''echo hi'') =
     (Return False,
      (hookWorld ''echo hi'')
        \<lparr>out := [(Error, ''commit-msg hook does not exist. Use installHook instead.'')]\<rparr>)
   \<and> addToHook [''proj''] ''pre-commit'' ''npx lint-staged'' (hookWorld ''echo hi'') =
     (Return True,
      (hookWorld ''echo hi'')
        \<lparr>files := AList.update [''proj'', ''.husky'', ''pre-commit'']
                     (File (''echo hi'' @ [nl] @ ''npx lint-staged'' @ [nl]) False)
                     (files (hookWorld ''echo hi'')),
         out := [(Success, ''Command added to pre-commit hook.'')]\<rparr>)"
proof -
  have a: "lookupNode ([''proj''] @ [''.husky'', ''pre-commit'']) (hookWorld ''echo hi'')
             = Some (File ''echo hi'' False)"
    by (simp add: lookupNode_def hookWorld_def)
  have b: "lookupNode ([''proj''] @ [''.husky'', ''commit-msg'']) (hookWorld ''echo hi'') = None"
    by (simp add: lookupNode_def hookWorld_def)
  have c: "''echo hi'' = [] @ ''echo hi'' @ []" by simp
  have d: "\<not> str_includes ''echo hi'' (trim ''npx lint-staged'')"
    by (simp add: trim_def isWhiteSpace_def)
  have e: "out (hookWorld ''echo hi'') = []" by (simp add: hookWorld_def)
  show ?thesis
    using a b c d e
      addToHook_behaviour [of "[''proj'']" "''pre-commit''" "hookWorld ''echo hi''" "''echo hi''"
        False "[]" "''echo hi''" "[]"]
      addToHook_behaviour [of "[''proj'']" "''commit-msg''" "hookWorld ''echo hi''" "''echo hi''"
        False "[]" "''echo hi''" "[]"]
      addToHook_behaviour [of "[''proj'']" "''pre-commit''" "hookWorld ''echo hi''" "''echo hi''"
        False "[]" "''npx lint-staged''" "[]"]
    by simp
qed

text \<open>
  Claim C8 as stated fails in its last part. Appending \<open>npx lint-staged\<close> to a hook file
  holding \<open>echo hi\<close> adds a newline, the command and one more newline, which is not the
  file followed by a newline and the command. And a file holding \<open>npx lint-staged\<close> does
  not contain the exact command text \<open>npx lint-staged\<close> followed by a space, yet nothing
  is appended for that command, because the file contains the trimmed command.
\<close>

theorem addToHook_append_counterexample:
  "addToHook [''proj''] ''pre-commit'' ''npx lint-staged'' (hookWorld ''echo hi'') =
     (Return True,
      \<lparr>files = [([''proj''], Dir), ([''proj'', ''.husky''], Dir),
                ([''proj'', ''.husky'', ''pre-commit''],
                 File (''echo hi'' @ [nl] @ ''npx lint-staged'' @ [nl]) False)],
       stdin = [''n''], out = [(Success, ''Command added to pre-commit hook.'')]\<rparr>)
   \<and> ''echo hi'' @ [nl] @ ''npx lint-staged'' @ [nl] \<noteq> ''echo hi'' @ [nl] @ ''npx lint-staged''
   \<and> \<not> str_includes ''npx lint-staged'' ''npx lint-staged ''
   \<and> addToHook [''proj''] ''pre-commit'' ''npx lint-staged '' (hookWorld ''npx lint-staged'') =
     (Return True,
      \<lparr>files = [([''proj''], Dir), ([''proj'', ''.husky''], Dir),
                ([''proj'', ''.husky'', ''pre-commit''], File ''npx lint-staged'' False)],
       stdin = [''n''], out = [(Info, ''Command already exists in pre-commit hook.'')]\<rparr>)"
  by (simp add: addToHook_def hookWorld_def isHookInstalled_def existsSync_def lookupNode_def
      readFileSync_def appendFileSync_def putNode_def trim_def isWhiteSpace_def Let_def prog_defs)

text \<open>
  Claim C10. \<open>installHook\<close> and \<open>addToHook\<close> decide that a hook is already configured by
  substring containment: whenever the hook file's content contains the trimmed command text
  anywhere, with any text before and after it, both return success and leave every file
  as it was, whatever \<open>overwrite\<close> is. They only print a line.
\<close>

theorem configured_hook_untouched:
  assumes "lookupNode (userRoot @ [''.husky'', hookName]) w = Some (File content x)"
    and "content = pre @ trim hookCommand @ post"
  shows "installHook env userRoot hookName hookCommand overwrite w =
           (Return True,
            w\<lparr>out := out w @ [(Info, hookName @ '' hook already configured with this command.'')]\<rparr>)
       \<and> addToHook userRoot hookName hookCommand w =
           (Return True,
            w\<lparr>out := out w @ [(Info, ''Command already exists in '' @ hookName @ '' hook.'')]\<rparr>)"
proof -
  have "str_includes content (trim hookCommand)"
    using assms(2) by (auto simp: str_includes_iff)
  with assms(1) show ?thesis
    by (simp add: installHook_configured addToHook_configured)
qed

theorem configured_hook_untouched_witness:
  "installHook env0 [''proj''] ''pre-commit'' '' lint '' False (hookWorld ''echo linting done'') =
     (Return True,
      (hookWorld ''echo linting done'')
        \<lparr>out := [(Info, ''pre-commit hook already configured with this command.'')]\<rparr>)
   \<and> addToHook [''proj''] ''pre-commit'' '' lint '' (hookWorld ''echo linting done'') =
     (Return True,
      (hookWorld ''echo linting done'')
        \<lparr>out := [(Info, ''Command already exists in pre-commit hook.'')]\<rparr>)"
proof -
  have a: "lookupNode ([''proj''] @ [''.husky'', ''pre-commit'']) (hookWorld ''echo linting done'')
             = Some (File ''echo linting done'' False)"
    by (simp add: lookupNode_def hookWorld_def)
  have b: "''echo linting done'' = ''echo '' @ trim '' lint '' @ ''ing done''"
    by (simp add: trim_def isWhiteSpace_def)
  have c: "out (hookWorld ''echo linting done'') = []"
    by (simp add: hookWorld_def)
  show ?thesis
    using c configured_hook_untouched [OF a b, of env0 False] by simp
qed

section \<open>The manifest editor\<close>

lemma getProp_update_other: "key \<noteq> k \<Longrightarrow> getProp (AList.update k v s) key = getProp s key"
  by (simp add: getProp_def update_conv')

lemma mergeEntry_object:
  "\<exists>w'. mergeEntry ov (JObj s) (k, v) w =
          (Return (JObj (if ov \<or> \<not> truthy (getProp s k) then AList.update k v s else s)), w')
        \<and> files w' = files w \<and> stdin w' = stdin w"
  by (auto simp: setProp_def prog_defs)

lemma forEachEntry_object:
  assumes "distinct (map fst es)"
  shows "\<exists>s' w'. forEachEntry ov (JObj s) es w = (Return (JObj s'), w')
           \<and> files w' = files w \<and> stdin w' = stdin w
           \<and> (\<forall>key. map_of s' key =
                 (case map_of es key of
                    None \<Rightarrow> map_of s key
                  | Some v \<Rightarrow> if ov \<or> \<not> truthy (getProp s key) then Some v else map_of s key))"
  using assms
proof (induction es arbitrary: s w)
  case Nil
  then show ?case by (simp add: ret_def)
next
  case (Cons e es)
  obtain k v where e: "e = (k, v)" by (cases e)
  define s1 where "s1 = (if ov \<or> \<not> truthy (getProp s k) then AList.update k v s else s)"
  obtain w1 where step: "mergeEntry ov (JObj s) (k, v) w = (Return (JObj s1), w1)"
    and w1: "files w1 = files w" "stdin w1 = stdin w"
    using mergeEntry_object [of ov s k v w] unfolding s1_def by blast
  from Cons.prems e have dist: "distinct (map fst es)" and fresh: "map_of es k = None"
    by (auto simp: map_of_eq_None_iff)
  from Cons.IH [OF dist, of s1 w1] obtain s' w' where
    run: "forEachEntry ov (JObj s1) es w1 = (Return (JObj s'), w')"
    and w': "files w' = files w1" "stdin w' = stdin w1"
    and look: "\<And>key. map_of s' key =
                 (case map_of es key of
                    None \<Rightarrow> map_of s1 key
                  | Some v \<Rightarrow> if ov \<or> \<not> truthy (getProp s1 key) then Some v else map_of s1 key)"
    by blast
  have whole: "forEachEntry ov (JObj s) (e # es) w = (Return (JObj s'), w')"
    using step run by (simp add: e andThen_def)
  have "map_of s' key =
          (case map_of (e # es) key of
             None \<Rightarrow> map_of s key
           | Some v \<Rightarrow> if ov \<or> \<not> truthy (getProp s key) then Some v else map_of s key)" for key
  proof (cases "key = k")
    case True
    then show ?thesis
      using look [of k] fresh by (simp add: e s1_def update_conv')
  next
    case False
    then have "map_of s1 key = map_of s key" "getProp s1 key = getProp s key"
      by (simp_all add: s1_def update_conv' getProp_update_other)
    then show ?thesis
      using look [of key] False by (simp add: e split: option.splits)
  qed
  with whole w' w1 show ?case by auto
qed

lemma scriptsOrEmpty_not_null: "scriptsOrEmpty pkg \<noteq> JNull"
  by (auto simp: scriptsOrEmpty_def split: option.splits json.splits)

lemma update_fresh: "k \<notin> fst ` set xs \<Longrightarrow> AList.update k v xs = xs @ [(k, v)]"
  by (induction xs) auto

lemma assign_distinct: "distinct (map fst (xs @ src)) \<Longrightarrow> assign xs src = xs @ src"
proof (induction src arbitrary: xs)
  case Nil
  then show ?case by (simp add: assign_def)
next
  case (Cons e src)
  obtain k v where e: "e = (k, v)" by (cases e)
  from Cons.prems have fresh: "k \<notin> fst ` set xs" and rest: "distinct (map fst ((xs @ [(k, v)]) @ src))"
    by (auto simp: e)
  have "assign xs (e # src) = assign (AList.update k v xs) src"
    by (simp add: assign_def setProp_def e)
  also have "\<dots> = assign (xs @ [(k, v)]) src"
    using fresh by (simp add: update_fresh)
  also have "\<dots> = (xs @ [(k, v)]) @ src"
    using rest by (rule Cons.IH)
  finally show ?case by (simp add: e)
qed

lemma assign_map_of:
  "distinct (map fst src) \<Longrightarrow> map_of (assign target src) = map_of target ++ map_of src"
proof (induction src arbitrary: target)
  case Nil
  then show ?case by (simp add: assign_def)
next
  case (Cons e src)
  obtain k v where e: "e = (k, v)" by (cases e)
  from Cons.prems have fresh: "map_of src k = None" and dist: "distinct (map fst src)"
    by (auto simp: e map_of_eq_None_iff)
  have "map_of (assign target (e # src)) = map_of (assign (AList.update k v target) src)"
    by (simp add: assign_def setProp_def e)
  also have "\<dots> = (map_of target)(k \<mapsto> v) ++ map_of src"
    by (simp only: Cons.IH [OF dist] update_conv')
  also have "\<dots> = map_of target ++ map_of (e # src)"
    using fresh by (auto simp: e map_add_def fun_eq_iff split: option.splits)
  finally show ?case .
qed

lemma falsy_no_props: "\<not> truthyJson old \<Longrightarrow> ownProps old = []"
  by (cases old) (simp_all add: indexed_def)

lemma mergeScripts_merged:
  assumes "distinct (map fst newScripts)"
    and "fst ` set newScripts \<inter> set objectPrototypeNames = {}"
    and "map_of pkg ''scripts'' = Some (JObj scripts)
         \<or> (map_of pkg ''scripts'' = None \<or> map_of pkg ''scripts'' = Some JNull) \<and> scripts = []"
  shows "\<exists>pkg' scripts' w'.
      mergeScripts (JObj pkg) (JObj newScripts) overwrite w = (Return (JObj pkg'), w')
    \<and> files w' = files w
    \<and> map_of pkg' = (map_of pkg)(''scripts'' \<mapsto> JObj scripts')
    \<and> (\<forall>key. map_of scripts' key =
          (case map_of newScripts key of
             None \<Rightarrow> map_of scripts key
           | Some v \<Rightarrow>
               (case map_of scripts key of
                  None \<Rightarrow> Some v
                | Some old \<Rightarrow> if overwrite \<or> \<not> truthyJson old then Some v else Some old)))"
proof -
  have start: "scriptsOrEmpty pkg = JObj scripts"
    using assms(3) by (auto simp: scriptsOrEmpty_def)
  from forEachEntry_object [OF assms(1), of overwrite scripts w] obtain s' w' where
    run: "forEachEntry overwrite (JObj scripts) newScripts w = (Return (JObj s'), w')"
    and w': "files w' = files w"
    and look: "\<And>key. map_of s' key =
                 (case map_of newScripts key of
                    None \<Rightarrow> map_of scripts key
                  | Some v \<Rightarrow>
                      if overwrite \<or> \<not> truthy (getProp scripts key) then Some v
                      else map_of scripts key)"
    by blast
  have own: "truthy (getProp scripts key) =
               (case map_of scripts key of None \<Rightarrow> False | Some old \<Rightarrow> truthyJson old)"
    if "map_of newScripts key = Some v" for key v
  proof -
    from that have "key \<in> fst ` set newScripts"
      by (metis map_of_eq_None_iff option.distinct(1))
    with assms(2) have "key \<notin> set objectPrototypeNames" by blast
    then show ?thesis by (simp add: getProp_def split: option.splits)
  qed
  have look': "map_of s' key =
          (case map_of newScripts key of
             None \<Rightarrow> map_of scripts key
           | Some v \<Rightarrow>
               (case map_of scripts key of
                  None \<Rightarrow> Some v
                | Some old \<Rightarrow> if overwrite \<or> \<not> truthyJson old then Some v else Some old))" for key
    using look [of key] own [of key] by (auto split: option.splits)
  have "mergeScripts (JObj pkg) (JObj newScripts) overwrite w =
          (Return (JObj (AList.update ''scripts'' (JObj s')
                          (AList.update ''scripts'' (JObj scripts) pkg))), w')"
    using run start by (simp add: Let_def objectEntries_def setProp_def prog_defs)
  moreover have "map_of (AList.update ''scripts'' (JObj s')
                          (AList.update ''scripts'' (JObj scripts) pkg))
                 = (map_of pkg)(''scripts'' \<mapsto> JObj s')"
    by (simp add: update_conv')
  ultimately show ?thesis using w' look' by blast
qed

lemma mergeScripts_nothing_new:
  assumes "map_of pkg ''scripts'' = None \<or> map_of pkg ''scripts'' = Some JNull"
  shows "mergeScripts (JObj pkg) (JObj []) overwrite w =
           (Return (JObj (AList.update ''scripts'' (JObj []) pkg)), w)"
proof -
  have "scriptsOrEmpty pkg = JObj []"
    using assms by (auto simp: scriptsOrEmpty_def)
  then show ?thesis
    by (simp add: Let_def objectEntries_def setProp_def prog_defs)
qed

text \<open>
  Claim C1, as the code has it. The manifest is an object whose \<open>scripts\<close> is an object,
  or is absent or \<open>null\<close> (then the entries \<open>scripts\<close> starts from are none); the new
  scripts are a JSON object, with distinct keys, none of them the name of a member of
  \<open>Object.prototype\<close> (\<open>constructor\<close>, \<open>toString\<close>, \<open>__proto__\<close>, ...). Then
  \<open>mergeScripts\<close> returns the manifest with nothing but its \<open>scripts\<close> changed, and changes
  no file. With \<open>overwrite = false\<close> an entry of the new scripts is set exactly when the key
  is absent from \<open>manifest.scripts\<close> or holds a falsy value there, such as the empty string;
  a truthy existing value stays. With \<open>overwrite = true\<close> the new value replaces it. The
  entries of \<open>manifest.scripts\<close> not named in the new scripts are all there afterwards,
  unchanged.
\<close>

theorem mergeScripts_entries:
  assumes "distinct (map fst newScripts)"
    and "fst ` set newScripts \<inter> set objectPrototypeNames = {}"
    and "map_of pkg ''scripts'' = Some (JObj scripts)
         \<or> (map_of pkg ''scripts'' = None \<or> map_of pkg ''scripts'' = Some JNull) \<and> scripts = []"
  shows "\<exists>pkg' scripts' w'.
      mergeScripts (JObj pkg) (JObj newScripts) overwrite w = (Return (JObj pkg'), w')
    \<and> files w' = files w
    \<and> map_of pkg' = (map_of pkg)(''scripts'' \<mapsto> JObj scripts')
    \<and> (\<forall>key. map_of scripts' key =
          (case map_of newScripts key of
             None \<Rightarrow> map_of scripts key
           | Some v \<Rightarrow>
               (case map_of scripts key of
                  None \<Rightarrow> Some v
                | Some old \<Rightarrow> if overwrite \<or> \<not> truthyJson old then Some v else Some old)))"
  using assms by (rule mergeScripts_merged)

theorem mergeScripts_entries_witness:
  "(\<exists>pkg' scripts' w'.
      mergeScripts (JObj scriptedManifest) (JObj [(''a'', JStr ''x''), (''lint'', JStr ''eslint .'')])
        False emptyProject = (Return (JObj pkg'), w')
      \<and> map_of pkg' ''name'' = Some (JStr ''x'')
      \<and> map_of pkg' ''scripts'' = Some (JObj scripts')
      \<and> map_of scripts' ''a'' = Some (JStr ''y'')
      \<and> map_of scripts' ''test'' = Some (JStr ''jest'')
      \<and> map_of scripts' ''lint'' = Some (JStr ''eslint .''))
 \<and> (\<exists>pkg' scripts' w'.
      mergeScripts (JObj scriptedManifest) (JObj [(''a'', JStr ''x''), (''lint'', JStr ''eslint .'')])
        True emptyProject = (Return (JObj pkg'), w')
      \<and> map_of pkg' ''name'' = Some (JStr ''x'')
      \<and> map_of pkg' ''scripts'' = Some (JObj scripts')
      \<and> map_of scripts' ''a'' = Some (JStr ''x'')
      \<and> map_of scripts' ''test'' = Some (JStr ''jest'')
      \<and> map_of scripts' ''lint'' = Some (JStr ''eslint .''))"
proof -
  have d: "distinct (map fst [(''a'', JStr ''x''), (''lint'', JStr ''eslint .'')])" by simp
  have p: "fst ` set [(''a'', JStr ''x''), (''lint'', JStr ''eslint .'')] \<inter> set objectPrototypeNames = {}"
    by (simp add: objectPrototypeNames_def)
  have s: "map_of scriptedManifest ''scripts'' = Some (JObj [(''a'', JStr ''y''), (''test'', JStr ''jest'')])
           \<or> (map_of scriptedManifest ''scripts'' = None \<or> map_of scriptedManifest ''scripts'' = Some JNull)
              \<and> [(''a'', JStr ''y''), (''test'', JStr ''jest'')] = []"
    by (simp add: scriptedManifest_def)
  have n: "map_of scriptedManifest ''name'' = Some (JStr ''x'')"
    by (simp add: scriptedManifest_def)
  from mergeScripts_entries [OF d p s, of False emptyProject] n
  have first: "\<exists>pkg' scripts' w'.
      mergeScripts (JObj scriptedManifest) (JObj [(''a'', JStr ''x''), (''lint'', JStr ''eslint .'')])
        False emptyProject = (Return (JObj pkg'), w')
      \<and> map_of pkg' ''name'' = Some (JStr ''x'')
      \<and> map_of pkg' ''scripts'' = Some (JObj scripts')
      \<and> map_of scripts' ''a'' = Some (JStr ''y'')
      \<and> map_of scripts' ''test'' = Some (JStr ''jest'')
      \<and> map_of scripts' ''lint'' = Some (JStr ''eslint .'')"
    by fastforce
  from mergeScripts_entries [OF d p s, of True emptyProject] n
  have second: "\<exists>pkg' scripts' w'.
      mergeScripts (JObj scriptedManifest) (JObj [(''a'', JStr ''x''), (''lint'', JStr ''eslint .'')])
        True emptyProject = (Return (JObj pkg'), w')
      \<and> map_of pkg' ''name'' = Some (JStr ''x'')
      \<and> map_of pkg' ''scripts'' = Some (JObj scripts')
      \<and> map_of scripts' ''a'' = Some (JStr ''x'')
      \<and> map_of scripts' ''test'' = Some (JStr ''jest'')
      \<and> map_of scripts' ''lint'' = Some (JStr ''eslint .'')"
    by fastforce
  from first second show ?thesis by (rule conjI)
qed

text \<open>
  Claim C1 as stated fails: a script \<open>a\<close> that is present, with the empty string as its
  value, is overwritten although \<open>overwrite\<close> is false.
\<close>

theorem mergeScripts_falsy_counterexample:
  "mergeScripts (JObj [(''scripts'', JObj [(''a'', JStr '''')])]) (JObj [(''a'', JStr ''x'')])
     False emptyProject =
     (Return (JObj [(''scripts'', JObj [(''a'', JStr ''x'')])]), emptyProject)"
  by (simp add: scriptsOrEmpty_def objectEntries_def setProp_def getProp_def
      emptyProject_def Let_def prog_defs)

text \<open>
  Claim C2. The value is a JSON object (distinct keys) and the key is not \<open>__proto__\<close>.
  \<open>mergePackageConfig\<close> returns the manifest with only \<open>manifest[key]\<close> changed, and
  changes no file. When \<open>manifest[key]\<close> is absent or \<open>merge\<close> is false, the new
  \<open>manifest[key]\<close> is the value itself. When it is present and \<open>merge\<close> is true, the new
  block has the top-level entries of the old block overridden by those of the value: a key of
  the value gets the value's entry whole, whatever was nested under it before, and the other
  old keys keep theirs.
\<close>

theorem mergePackageConfig_block:
  assumes "distinct (map fst configValue)"
    and "configKey \<noteq> ''__proto__''"
  shows "\<exists>pkg' w'.
      mergePackageConfig (JObj pkg) configKey (JObj configValue) merge w = (Return (JObj pkg'), w')
    \<and> files w' = files w
    \<and> (\<forall>k. k \<noteq> configKey \<longrightarrow> map_of pkg' k = map_of pkg k)
    \<and> (map_of pkg configKey = None \<or> \<not> merge \<longrightarrow>
         map_of pkg' configKey = Some (JObj configValue))
    \<and> (\<forall>old. map_of pkg configKey = Some old \<and> merge \<and> distinct (map fst (ownProps old)) \<longrightarrow>
         (\<exists>block. map_of pkg' configKey = Some (JObj block)
            \<and> map_of block = map_of (ownProps old) ++ map_of configValue))"
proof (cases "\<not> truthy (getProp pkg configKey) \<or> \<not> merge")
  case True
  then have run: "mergePackageConfig (JObj pkg) configKey (JObj configValue) merge w =
      (Return (JObj (AList.update configKey (JObj configValue) pkg)),
       w\<lparr>out := out w @ [(Success, ''Added '' @ configKey @ '' configuration'')]\<rparr>)"
    by (simp add: setProp_def prog_defs)
  have "map_of configValue = map_of (ownProps old) ++ map_of configValue"
    if "map_of pkg configKey = Some old" "merge" for old
  proof -
    from that True have "\<not> truthyJson old" by (simp add: getProp_def)
    then show ?thesis by (simp add: falsy_no_props)
  qed
  with run show ?thesis
    by (auto simp: update_conv')
next
  case False
  define block where "block = assign (assign [] (spreadProps (getProp pkg configKey))) configValue"
  from False have run: "mergePackageConfig (JObj pkg) configKey (JObj configValue) merge w =
      (Return (JObj (AList.update configKey (JObj block) pkg)),
       w\<lparr>out := out w @ [(Success, ''Merged '' @ configKey @ '' configuration'')]\<rparr>)"
    by (simp add: setProp_def block_def prog_defs)
  have absent: "block = configValue" if "map_of pkg configKey = None"
  proof -
    from that have "spreadProps (getProp pkg configKey) = []"
      by (simp add: getProp_def)
    moreover have "assign [] [] = []" by (simp add: assign_def)
    moreover have "assign [] configValue = configValue"
      using assms(1) assign_distinct [of "[]" configValue] by simp
    ultimately show ?thesis by (simp add: block_def)
  qed
  have present: "map_of block = map_of (ownProps old) ++ map_of configValue"
    if "map_of pkg configKey = Some old" "distinct (map fst (ownProps old))" for old
    using that assms(1) by (simp add: block_def getProp_def assign_map_of)
  from False have "merge" by simp
  with run absent present show ?thesis
    by (auto simp: update_conv')
qed

theorem mergePackageConfig_block_witness:
  "(\<exists>pkg' block w'.
      mergePackageConfig (JObj [(''k'', JObj [(''y'', JNum 2)])]) ''k'' (JObj [(''x'', JNum 1)])
        True emptyProject = (Return (JObj pkg'), w')
      \<and> map_of pkg' ''k'' = Some (JObj block)
      \<and> map_of block ''x'' = Some (JNum 1) \<and> map_of block ''y'' = Some (JNum 2))
 \<and> (\<exists>pkg' w'.
      mergePackageConfig (JObj [(''k'', JObj [(''y'', JNum 2)])]) ''k'' (JObj [(''x'', JNum 1)])
        False emptyProject = (Return (JObj pkg'), w')
      \<and> map_of pkg' ''k'' = Some (JObj [(''x'', JNum 1)]))"
proof -
  have d: "distinct (map fst [(''x'', JNum 1)])" by simp
  have p: "''k'' \<noteq> ''__proto__''" by simp
  have o: "map_of [(''k'', JObj [(''y'', JNum 2)])] ''k'' = Some (JObj [(''y'', JNum 2)])
           \<and> distinct (map fst (ownProps (JObj [(''y'', JNum 2)])))"
    by simp
  from mergePackageConfig_block [OF d p, of "[(''k'', JObj [(''y'', JNum 2)])]" True emptyProject] o
  have first: "\<exists>pkg' block w'.
      mergePackageConfig (JObj [(''k'', JObj [(''y'', JNum 2)])]) ''k'' (JObj [(''x'', JNum 1)])
        True emptyProject = (Return (JObj pkg'), w')
      \<and> map_of pkg' ''k'' = Some (JObj block)
      \<and> map_of block ''x'' = Some (JNum 1) \<and> map_of block ''y'' = Some (JNum 2)"
    by (fastforce simp: map_add_def)
  from mergePackageConfig_block [OF d p, of "[(''k'', JObj [(''y'', JNum 2)])]" False emptyProject]
  have second: "\<exists>pkg' w'.
      mergePackageConfig (JObj [(''k'', JObj [(''y'', JNum 2)])]) ''k'' (JObj [(''x'', JNum 1)])
        False emptyProject = (Return (JObj pkg'), w')
      \<and> map_of pkg' ''k'' = Some (JObj [(''x'', JNum 1)])"
    by fastforce
  from first second show ?thesis by (rule conjI)
qed

section \<open>The file copier\<close>




lemma andThen_assoc: "andThen (andThen m f) g = andThen m (\<lambda>x. andThen (f x) g)"
  by (auto simp: andThen_def fun_eq_iff split: prod.splits outcome.splits)

lemma andThen_ret: "andThen (ret x) f = f x"
  by (simp add: andThen_def ret_def fun_eq_iff)

lemma copyEach_append:
  "copyEach srcDir destDir (xs @ ys) allowOverwrite r =
     andThen (copyEach srcDir destDir xs allowOverwrite r)
       (\<lambda>r1. copyEach srcDir destDir ys allowOverwrite r1)"
proof (induction xs arbitrary: r)
  case Nil
  show ?case by (simp add: andThen_ret)
next
  case (Cons x xs)
  show ?case
    by (simp add: Let_def Cons.IH andThen_def fun_eq_iff split: prod.splits outcome.splits)
qed

lemma existsSync_out [simp]: "existsSync p (w\<lparr>out := l\<rparr>) = existsSync p w"
  by (simp add: existsSync_def)













section \<open>The manifest after validation\<close>

text \<open>
  Claim C9, as the code has it. For every path to an existing file whose text parses as
  JSON, \<open>validatePackageJson\<close> returns the parsed value as it is and changes nothing: the
  manifest has a \<open>scripts\<close> mapping after validation only if the file has one. The
  mapping is there after \<open>mergeScripts\<close>. On a manifest object whose \<open>scripts\<close> is absent
  or \<open>null\<close>, \<open>mergeScripts\<close> with no new script returns the manifest with \<open>scripts\<close> set
  to the empty object, and with new scripts (distinct keys, none the name of a member of
  \<open>Object.prototype\<close>) it returns it with \<open>scripts\<close> holding exactly the new entries. On a
  manifest whose \<open>scripts\<close> is an object, that object is kept: its entries stay, except
  those the merge overwrites.
\<close>

theorem validatePackageJson_returns_parsed:
  assumes "lookupNode pkgPath w = Some (File text x)"
    and "JSONparse env text = Some v"
  shows "validatePackageJson env pkgPath w = (Return v, w)
       \<and> (\<forall>pkg overwrite w0.
             v = JObj pkg
             \<and> (map_of pkg ''scripts'' = None \<or> map_of pkg ''scripts'' = Some JNull) \<longrightarrow>
             mergeScripts v (JObj []) overwrite w0 =
               (Return (JObj (AList.update ''scripts'' (JObj []) pkg)), w0))
       \<and> (\<forall>pkg scripts newScripts overwrite w0.
             v = JObj pkg
             \<and> (map_of pkg ''scripts'' = Some (JObj scripts)
                \<or> (map_of pkg ''scripts'' = None \<or> map_of pkg ''scripts'' = Some JNull)
                   \<and> scripts = [])
             \<and> distinct (map fst newScripts)
             \<and> fst ` set newScripts \<inter> set objectPrototypeNames = {} \<longrightarrow>
             (\<exists>pkg' scripts' w'.
                mergeScripts v (JObj newScripts) overwrite w0 = (Return (JObj pkg'), w')
                \<and> map_of pkg' = (map_of pkg)(''scripts'' \<mapsto> JObj scripts')
                \<and> (\<forall>key. map_of scripts' key =
                      (case map_of newScripts key of
                         None \<Rightarrow> map_of scripts key
                       | Some new \<Rightarrow>
                           (case map_of scripts key of
                              None \<Rightarrow> Some new
                            | Some old \<Rightarrow>
                                if overwrite \<or> \<not> truthyJson old then Some new else Some old)))))"
proof (intro conjI allI impI)
  show "validatePackageJson env pkgPath w = (Return v, w)"
    using assms
    by (simp add: validatePackageJson_def existsSync_def readJSON_def readFileSync_def prog_defs)
next
  fix pkg overwrite and w0 :: world
  assume "v = JObj pkg
          \<and> (map_of pkg ''scripts'' = None \<or> map_of pkg ''scripts'' = Some JNull)"
  then show "mergeScripts v (JObj []) overwrite w0 =
               (Return (JObj (AList.update ''scripts'' (JObj []) pkg)), w0)"
    using mergeScripts_nothing_new [of pkg overwrite w0] by simp
next
  fix pkg scripts and newScripts :: object and overwrite and w0 :: world
  assume h: "v = JObj pkg
             \<and> (map_of pkg ''scripts'' = Some (JObj scripts)
                \<or> (map_of pkg ''scripts'' = None \<or> map_of pkg ''scripts'' = Some JNull)
                   \<and> scripts = [])
             \<and> distinct (map fst newScripts)
             \<and> fst ` set newScripts \<inter> set objectPrototypeNames = {}"
  then have v: "v = JObj pkg"
    and s: "map_of pkg ''scripts'' = Some (JObj scripts)
                \<or> (map_of pkg ''scripts'' = None \<or> map_of pkg ''scripts'' = Some JNull)
                   \<and> scripts = []"
    and d: "distinct (map fst newScripts)"
    and p: "fst ` set newScripts \<inter> set objectPrototypeNames = {}"
    by simp_all
  show "\<exists>pkg' scripts' w'.
          mergeScripts v (JObj newScripts) overwrite w0 = (Return (JObj pkg'), w')
          \<and> map_of pkg' = (map_of pkg)(''scripts'' \<mapsto> JObj scripts')
          \<and> (\<forall>key. map_of scripts' key =
                (case map_of newScripts key of
                   None \<Rightarrow> map_of scripts key
                 | Some new \<Rightarrow>
                     (case map_of scripts key of
                        None \<Rightarrow> Some new
                      | Some old \<Rightarrow>
                          if overwrite \<or> \<not> truthyJson old then Some new else Some old)))"
    unfolding v using mergeScripts_merged [OF d p s, of overwrite w0] by (elim exE conjE) blast
qed

theorem validatePackageJson_returns_parsed_witness:
  "validatePackageJson env0 [''proj'', ''package.json''] manifestProject
     = (Return (JObj []), manifestProject)
   \<and> mergeScripts (JObj []) (JObj []) False manifestProject
     = (Return (JObj [(''scripts'', JObj [])]), manifestProject)
   \<and> (\<exists>pkg' scripts' w'.
        mergeScripts (JObj []) (JObj [(''prepare'', JStr ''husky'')]) False manifestProject
          = (Return (JObj pkg'), w')
        \<and> map_of pkg' ''scripts'' = Some (JObj scripts')
        \<and> map_of scripts' ''prepare'' = Some (JStr ''husky'')
        \<and> map_of scripts' ''lint'' = None)"
proof -
  have a: "lookupNode [''proj'', ''package.json''] manifestProject = Some (File ''{}'' False)"
    by (simp add: lookupNode_def manifestProject_def)
  have b: "JSONparse env0 ''{}'' = Some (JObj [])"
    by (simp add: env0_def)
  note t = validatePackageJson_returns_parsed [OF a b]
  have first: "validatePackageJson env0 [''proj'', ''package.json''] manifestProject
     = (Return (JObj []), manifestProject)"
    using t by (rule conjunct1)
  have second: "mergeScripts (JObj []) (JObj []) False manifestProject
     = (Return (JObj [(''scripts'', JObj [])]), manifestProject)"
    using t [THEN conjunct2, THEN conjunct1, rule_format, of "[]" False manifestProject] by simp
  have p: "fst ` set [(''prepare'', JStr ''husky'')] \<inter> set objectPrototypeNames = {}"
    by (simp add: objectPrototypeNames_def)
  have third: "\<exists>pkg' scripts' w'.
        mergeScripts (JObj []) (JObj [(''prepare'', JStr ''husky'')]) False manifestProject
          = (Return (JObj pkg'), w')
        \<and> map_of pkg' ''scripts'' = Some (JObj scripts')
        \<and> map_of scripts' ''prepare'' = Some (JStr ''husky'')
        \<and> map_of scripts' ''lint'' = None"
    using p t [THEN conjunct2, THEN conjunct2, rule_format,
        of "[]" "[]" "[(''prepare'', JStr ''husky'')]" False manifestProject]
    by fastforce
  from first second third show ?thesis by blast
qed

text \<open>
  Claim C9 as stated fails: the file \<open>package.json\<close> holding \<open>{}\<close> exists and parses, and
  the manifest that validation returns is the empty object, which has no \<open>scripts\<close>.
\<close>

theorem validatePackageJson_no_scripts_counterexample:
  "validatePackageJson env0 [''proj'', ''package.json''] manifestProject
     = (Return (JObj []), manifestProject)
   \<and> getProp [] ''scripts'' = Undefined"
  by (simp add: validatePackageJson_def existsSync_def lookupNode_def readJSON_def readFileSync_def
      getProp_def objectPrototypeNames_def env0_def manifestProject_def prog_defs)

end
